theory Spec2Isabelle
  imports Main
begin

section \<open>Python strings\<close>

text \<open>
  A Python \<^verbatim>\<open>str\<close> is a sequence of code points. A code point is modelled by its
  number, so that the escapes \<^verbatim>\<open>\uXXXX\<close> of JSON and the surrogate pairs written by
  \<^verbatim>\<open>json.dumps\<close> have their meaning; \<open>py\<close> turns a literal into such a sequence.
\<close>

type_synonym pystr = "nat list"

abbreviation py :: "string \<Rightarrow> pystr" where
  "py s \<equiv> map of_char s"

abbreviation dq :: nat where "dq \<equiv> 34"
abbreviation bsl :: nat where "bsl \<equiv> 92"
abbreviation nl :: nat where "nl \<equiv> 10"

section \<open>Value trees\<close>

text \<open>
  The value tree is what \<^verbatim>\<open>json.loads\<close> returns and \<^verbatim>\<open>_format_value\<close> consumes:
  \<^verbatim>\<open>None\<close>, \<^verbatim>\<open>bool\<close>, \<^verbatim>\<open>int\<close>, \<^verbatim>\<open>float\<close>, \<^verbatim>\<open>str\<close>, \<^verbatim>\<open>list\<close> and \<^verbatim>\<open>dict\<close>.
  A \<^verbatim>\<open>dict\<close> is an association list in insertion order. Python integers are
  unbounded, hence \<open>int\<close>. The finite floating point numbers are a type parameter
  \<open>'f\<close>; the two operations of Python on them that the program uses,
  \<^verbatim>\<open>float.__repr__\<close> and \<^verbatim>\<open>float(str)\<close>, are parameters of the functions below.
\<close>

datatype 'f pyfloat = Finite 'f | NaN | PosInf | NegInf

datatype 'f json =
    JNull
  | JBool bool
  | JInt int
  | JFloat "'f pyfloat"
  | JStr pystr
  | JList "'f json list"
  | JDict "(pystr \<times> 'f json) list"

datatype py_error = KeyError pystr | TypeError | RecursionError | ValueError

text \<open>Every \<^verbatim>\<open>dict\<close> of a value tree has pairwise different keys.\<close>

fun wf_json :: "'f json \<Rightarrow> bool" where
  "wf_json (JList xs) = list_all wf_json xs"
| "wf_json (JDict kvs) = (distinct (map fst kvs) \<and> list_all (\<lambda>(k, v). wf_json v) kvs)"
| "wf_json _ = True"

section \<open>\<^verbatim>\<open>json.dumps\<close>\<close>

text \<open>\<^verbatim>\<open>sep.join(xs)\<close>\<close>

fun join :: "pystr \<Rightarrow> pystr list \<Rightarrow> pystr" where
  "join sep [] = []"
| "join sep [x] = x"
| "join sep (x # y # ys) = x @ sep @ join sep (y # ys)"

text \<open>\<^verbatim>\<open>" " * n\<close>: the empty string when \<open>n\<close> is negative.\<close>

definition spaces :: "int \<Rightarrow> pystr" where
  "spaces n = replicate (nat n) 32"

text \<open>\<^verbatim>\<open>str(i)\<close> for an integer, which is how \<^verbatim>\<open>json.dumps\<close> writes it.\<close>

definition digit_char :: "nat \<Rightarrow> nat" where
  "digit_char d = 48 + d"

fun str_nat :: "nat \<Rightarrow> pystr" where
  "str_nat n = (if n < 10 then [digit_char n] else str_nat (n div 10) @ [digit_char (n mod 10)])"

declare str_nat.simps [simp del]

definition str_int :: "int \<Rightarrow> pystr" where
  "str_int i = (if i < 0 then 45 # str_nat (nat (- i)) else str_nat (nat i))"

text \<open>\<^verbatim>\<open>'\\u{0:04x}'.format(n)\<close>, for \<open>n\<close> below \<^verbatim>\<open>0x10000\<close>.\<close>

definition hex_char :: "nat \<Rightarrow> nat" where
  "hex_char d = (if d < 10 then 48 + d else 87 + d)"

definition u_escape :: "nat \<Rightarrow> pystr" where
  "u_escape n = [bsl, 117, hex_char (n div 4096 mod 16), hex_char (n div 256 mod 16),
                 hex_char (n div 16 mod 16), hex_char (n mod 16)]"

text \<open>
  The escape table \<^verbatim>\<open>ESCAPE_DCT\<close> of \<^verbatim>\<open>json.encoder\<close>: the quote, the backslash and the
  control characters below \<^verbatim>\<open>0x20\<close>.
\<close>

definition escape_dct :: "nat \<Rightarrow> pystr" where
  "escape_dct c =
     (if c = bsl then [bsl, bsl]
      else if c = dq then [bsl, dq]
      else if c = 8 then [bsl, 98]
      else if c = 12 then [bsl, 102]
      else if c = 10 then [bsl, 110]
      else if c = 13 then [bsl, 114]
      else if c = 9 then [bsl, 116]
      else u_escape c)"

text \<open>\<^verbatim>\<open>encode_basestring\<close>, used with \<^verbatim>\<open>ensure_ascii=False\<close>.\<close>

definition encode_basestring :: "pystr \<Rightarrow> pystr" where
  "encode_basestring s =
     dq # concat (map (\<lambda>c. if c = bsl \<or> c = dq \<or> c < 32 then escape_dct c else [c]) s) @ [dq]"

text \<open>
  \<^verbatim>\<open>encode_basestring_ascii\<close>, used by a plain \<^verbatim>\<open>json.dumps(k)\<close>: every character
  outside the range from the space to the tilde is escaped as well, a code point from
  \<^verbatim>\<open>0x10000\<close> on as a surrogate pair.
\<close>

definition escape_ascii :: "nat \<Rightarrow> pystr" where
  "escape_ascii c =
     (if c = bsl \<or> c = dq \<or> c < 32 then escape_dct c
      else if c < 65536 then u_escape c
      else u_escape (55296 + (c - 65536) div 1024 mod 1024) @ u_escape (56320 + (c - 65536) mod 1024))"

definition encode_basestring_ascii :: "pystr \<Rightarrow> pystr" where
  "encode_basestring_ascii s =
     dq # concat (map (\<lambda>c. if c = bsl \<or> c = dq \<or> c < 32 \<or> 126 < c then escape_ascii c else [c]) s) @ [dq]"

text \<open>\<^verbatim>\<open>floatstr\<close> of \<^verbatim>\<open>json.encoder\<close>, with \<^verbatim>\<open>allow_nan\<close> at its default.\<close>

fun floatstr :: "('f \<Rightarrow> pystr) \<Rightarrow> 'f pyfloat \<Rightarrow> pystr" where
  "floatstr float_repr NaN = py ''NaN''"
| "floatstr float_repr PosInf = py ''Infinity''"
| "floatstr float_repr NegInf = py ''-Infinity''"
| "floatstr float_repr (Finite x) = float_repr x"

section \<open>The configuration\<close>

record FormatConfig =
  indent :: int
  print_width :: int
  array_wrap :: pystr
  object_wrap :: pystr
  aggressive_inline :: bool
  long_block_threshold :: int
  eol :: pystr
  array_collapse_keys :: "pystr list"
  inline_homogeneous_objects :: bool
  inline_homogeneous_min :: int
  inline_string_max :: int
  allow_overflow_inline_arrays :: bool

definition DEFAULT_CFG :: FormatConfig where
  "DEFAULT_CFG = \<lparr>
     indent = 2,
     print_width = 120,
     array_wrap = (py ''collapse''),
     object_wrap = (py ''collapse''),
     aggressive_inline = True,
     long_block_threshold = 20,
     eol = [nl],
     array_collapse_keys = [(py ''requireStacks''), (py ''addElements''), (py ''removeElements''),
                            (py ''ingredients''), (py ''outputs''), (py ''drops'')],
     inline_homogeneous_objects = True,
     inline_homogeneous_min = 3,
     inline_string_max = 120,
     allow_overflow_inline_arrays = True \<rparr>"

section \<open>The layout engine\<close>

fun is_prim :: "'f json \<Rightarrow> bool" where
  "is_prim (JList _) = False"
| "is_prim (JDict _) = False"
| "is_prim _ = True"

text \<open>\<^verbatim>\<open>json.dumps(val, ensure_ascii=False, separators=(",", ": "))\<close>\<close>

fun dump_oneline :: "('f \<Rightarrow> pystr) \<Rightarrow> 'f json \<Rightarrow> pystr" where
  "dump_oneline fr JNull = (py ''null'')"
| "dump_oneline fr (JBool b) = (if b then (py ''true'') else (py ''false''))"
| "dump_oneline fr (JInt i) = str_int i"
| "dump_oneline fr (JFloat x) = floatstr fr x"
| "dump_oneline fr (JStr s) = encode_basestring s"
| "dump_oneline fr (JList xs) = (py ''['') @ join (py '','') (map (dump_oneline fr) xs) @ (py '']'')"
| "dump_oneline fr (JDict kvs) =
     (py ''{'') @ join (py '','') (map (\<lambda>(k, v). encode_basestring k @ (py '': '') @ dump_oneline fr v) kvs) @ (py ''}'')"

definition fits_width :: "pystr \<Rightarrow> FormatConfig \<Rightarrow> int \<Rightarrow> bool" where
  "fits_width s cfg level \<longleftrightarrow> int (length s) + level * indent cfg \<le> print_width cfg"

definition line_count :: "pystr \<Rightarrow> int" where
  "line_count s = int (count_list s nl) + 1"

definition keys_tuple :: "(pystr \<times> 'f json) list \<Rightarrow> pystr list" where
  "keys_tuple d = map fst d"

fun is_small_prim :: "'f json \<Rightarrow> FormatConfig \<Rightarrow> bool" where
  "is_small_prim (JStr s) cfg = (\<not> int (length s) > inline_string_max cfg)"
| "is_small_prim v cfg = is_prim v"

fun as_dict :: "'f json \<Rightarrow> (pystr \<times> 'f json) list option" where
  "as_dict (JDict d) = Some d"
| "as_dict _ = None"

text \<open>
  \<^verbatim>\<open>_array_is_homog_small_objs\<close>. \<open>those (map as_dict arr)\<close> is \<open>None\<close> exactly when
  some element is not a \<^verbatim>\<open>dict\<close>.
\<close>

definition array_is_homog_small_objs :: "'f json list \<Rightarrow> FormatConfig \<Rightarrow> bool \<times> pystr list" where
  "array_is_homog_small_objs arr cfg =
     (if arr = [] \<or> int (length arr) < inline_homogeneous_min cfg then (False, [])
      else case those (map as_dict arr) of
        None \<Rightarrow> (False, [])
      | Some ds \<Rightarrow>
          (let key_order = keys_tuple (hd ds) in
           if key_order = [] then (False, [])
           else if list_all (\<lambda>d. keys_tuple d = key_order \<and> list_all (\<lambda>(k, v). is_small_prim v cfg) d) ds
                then (True, key_order) else (False, [])))"

definition compact_object :: "('f \<Rightarrow> pystr) \<Rightarrow> (pystr \<times> 'f json) list \<Rightarrow> FormatConfig \<Rightarrow> pystr option" where
  "compact_object fr d cfg =
     (if list_all (\<lambda>(k, v). is_small_prim v cfg) d
      then Some ((py ''{ '') @ join (py '', '') (map (\<lambda>(k, v). encode_basestring_ascii k @ (py '': '') @ dump_oneline fr v) d) @ (py '' }''))
      else None)"

text \<open>
  \<^verbatim>\<open>_compact_list\<close>; \<open>compact_parts\<close> is its loop, which gives up at the first element
  that has no compact form.
\<close>

fun compact_list :: "('f \<Rightarrow> pystr) \<Rightarrow> 'f json list \<Rightarrow> FormatConfig \<Rightarrow> int \<Rightarrow> pystr option"
and compact_parts :: "('f \<Rightarrow> pystr) \<Rightarrow> 'f json list \<Rightarrow> FormatConfig \<Rightarrow> int \<Rightarrow> pystr list option" where
  "compact_list fr lst cfg level =
     (case compact_parts fr lst cfg level of
        None \<Rightarrow> None
      | Some parts \<Rightarrow>
          (let one = (py ''[ '') @ join (py '', '') parts @ (py '' ]'') in
           if fits_width one cfg level \<or> allow_overflow_inline_arrays cfg then Some one else None))"
| "compact_parts fr [] cfg level = Some []"
| "compact_parts fr (el # rest) cfg level =
     (if is_prim el then map_option ((#) (dump_oneline fr el)) (compact_parts fr rest cfg level)
      else case el of
        JDict d \<Rightarrow>
          (case compact_object fr d cfg of
             None \<Rightarrow> None
           | Some c \<Rightarrow> map_option ((#) c) (compact_parts fr rest cfg level))
      | JList l \<Rightarrow>
          (case compact_list fr l cfg level of
             None \<Rightarrow> None
           | Some c \<Rightarrow> map_option ((#) c) (compact_parts fr rest cfg level))
      | _ \<Rightarrow> None)"

declare compact_list.simps [simp del]

text \<open>
  The second attempt under a collapse key: the \<^verbatim>\<open>for ... else\<close> loop that collects
  \<^verbatim>\<open>elem_strings\<close>; \<open>None\<close> is its \<^verbatim>\<open>break\<close>. \<open>elem_compact\<close> is the body of the
  loop: the single-line form of one element, at the level of the array.
\<close>

definition elem_compact :: "('f \<Rightarrow> pystr) \<Rightarrow> 'f json \<Rightarrow> FormatConfig \<Rightarrow> int \<Rightarrow> pystr option" where
  "elem_compact fr el cfg level =
     (if is_prim el then Some (dump_oneline fr el)
      else case el of
        JDict d \<Rightarrow> compact_object fr d cfg
      | JList l \<Rightarrow> compact_list fr l cfg (level + 1)
      | _ \<Rightarrow> None)"

fun elem_strings :: "('f \<Rightarrow> pystr) \<Rightarrow> 'f json list \<Rightarrow> FormatConfig \<Rightarrow> int \<Rightarrow> pystr list option" where
  "elem_strings fr [] cfg level = Some []"
| "elem_strings fr (el # rest) cfg level =
     (case elem_compact fr el cfg level of
        None \<Rightarrow> None
      | Some c \<Rightarrow> map_option ((#) c) (elem_strings fr rest cfg level))"

text \<open>
  The block of \<^verbatim>\<open>_format_value\<close> guarded by
  \<^verbatim>\<open>isinstance(parent_key, str) and parent_key in cfg.array_collapse_keys\<close>.
  \<open>None\<close> means that control falls through to the rules below it.
\<close>

definition collapse_key_forms ::
  "('f \<Rightarrow> pystr) \<Rightarrow> 'f json list \<Rightarrow> FormatConfig \<Rightarrow> int \<Rightarrow> pystr option \<Rightarrow> pystr option" where
  "collapse_key_forms fr val cfg level parent_key =
     (case parent_key of
        None \<Rightarrow> None
      | Some pk \<Rightarrow>
          if pk \<in> set (array_collapse_keys cfg) then
            (case compact_list fr val cfg level of
               Some whole_inline \<Rightarrow> Some whole_inline
             | None \<Rightarrow>
                 (case elem_strings fr val cfg level of
                    None \<Rightarrow> None
                  | Some strs \<Rightarrow>
                      Some ((py ''['') @ [nl] @ join ((py '','') @ [nl]) (map (\<lambda>s. spaces (indent cfg * (level + 1)) @ s) strs)
                            @ [nl] @ spaces (indent cfg * level) @ (py '']''))))
          else None)"

text \<open>
  \<^verbatim>\<open>dict[k] = v\<close>: an existing key keeps its place, a new key goes to the end.
\<close>

fun dict_set :: "(pystr \<times> 'v) list \<Rightarrow> pystr \<Rightarrow> 'v \<Rightarrow> (pystr \<times> 'v) list" where
  "dict_set [] k v = [(k, v)]"
| "dict_set ((k', v') # d) k v = (if k' = k then (k, v) # d else (k', v') # dict_set d k v)"

text \<open>
  \<^verbatim>\<open>{k: el[k] for k in key_order}\<close>: the subscript raises \<^verbatim>\<open>KeyError\<close> on a key
  that \<open>el\<close> does not have.
\<close>

fun el_sorted :: "(pystr \<times> 'v) list \<Rightarrow> pystr list \<Rightarrow> (pystr \<times> 'v) list \<Rightarrow> py_error + (pystr \<times> 'v) list" where
  "el_sorted el [] acc = Inr acc"
| "el_sorted el (k # ks) acc =
     (case map_of el k of
        None \<Rightarrow> Inl (KeyError k)
      | Some v \<Rightarrow> el_sorted el ks (dict_set acc k v))"

text \<open>The loop of the homogeneous rule over the elements of the array.\<close>

fun homog_parts ::
  "('f \<Rightarrow> pystr) \<Rightarrow> 'f json list \<Rightarrow> FormatConfig \<Rightarrow> pystr \<Rightarrow> pystr list \<Rightarrow> py_error + pystr list" where
  "homog_parts fr [] cfg child key_order = Inr []"
| "homog_parts fr (el # rest) cfg child key_order =
     (case as_dict el of
        None \<Rightarrow> Inl TypeError
      | Some d \<Rightarrow>
          (case el_sorted d key_order [] of
             Inl e \<Rightarrow> Inl e
           | Inr es \<Rightarrow>
               (let one = (case compact_object fr es cfg of
                             None \<Rightarrow> dump_oneline fr (JDict es)
                           | Some c \<Rightarrow> if c = [] then dump_oneline fr (JDict es) else c)
                in case homog_parts fr rest cfg child key_order of
                     Inl e \<Rightarrow> Inl e
                   | Inr parts \<Rightarrow> Inr ((child @ one) # parts))))"

text \<open>
  The block guarded by \<^verbatim>\<open>cfg.inline_homogeneous_objects\<close>; \<open>None\<close> falls through.
\<close>

definition homogeneous_form ::
  "('f \<Rightarrow> pystr) \<Rightarrow> 'f json list \<Rightarrow> FormatConfig \<Rightarrow> int \<Rightarrow> (py_error + pystr) option" where
  "homogeneous_form fr val cfg level =
     (if inline_homogeneous_objects cfg then
        (case array_is_homog_small_objs val cfg of
           (ok, key_order) \<Rightarrow>
             if ok then
               Some (case homog_parts fr val cfg (spaces (indent cfg * (level + 1))) key_order of
                       Inl e \<Rightarrow> Inl e
                     | Inr parts \<Rightarrow>
                         Inr ((py ''['') @ [nl] @ join ((py '','') @ [nl]) parts @ [nl] @ spaces (indent cfg * level) @ (py '']'')))
             else None)
      else None)"

text \<open>The block "Collapse list of primitives when it fits"; \<open>None\<close> falls through.\<close>

definition primitive_collapse ::
  "('f \<Rightarrow> pystr) \<Rightarrow> 'f json list \<Rightarrow> FormatConfig \<Rightarrow> int \<Rightarrow> pystr option" where
  "primitive_collapse fr val cfg level =
     (if array_wrap cfg = (py ''collapse'') \<and> val \<noteq> [] \<and> list_all is_prim val then
        (let one = (py ''['') @ join (py '', '') (map (dump_oneline fr) val) @ (py '']'') in
         if fits_width one cfg level \<and> line_count one \<le> long_block_threshold cfg then Some one else None)
      else None)"

text \<open>
  The three rules of \<^verbatim>\<open>_format_value\<close> for an array that do not call it again, in
  the order of the source; \<open>None\<close> falls through to the default multi-line form.
\<close>

definition array_compact_forms ::
  "('f \<Rightarrow> pystr) \<Rightarrow> 'f json list \<Rightarrow> FormatConfig \<Rightarrow> int \<Rightarrow> pystr option
     \<Rightarrow> (py_error + pystr) option" where
  "array_compact_forms fr val cfg level parent_key =
     (case collapse_key_forms fr val cfg level parent_key of
        Some s \<Rightarrow> Some (Inr s)
      | None \<Rightarrow>
          (case homogeneous_form fr val cfg level of
             Some r \<Rightarrow> Some r
           | None \<Rightarrow>
               (case primitive_collapse fr val cfg level of
                  Some one \<Rightarrow> Some (Inr one)
                | None \<Rightarrow> None)))"

text \<open>
  The bodies of the loops of \<^verbatim>\<open>_format_value\<close> that call it again, and the final
  \<^verbatim>\<open>return\<close> of each block. An exception of a call (\<open>Inl\<close>) ends the loop at once.
\<close>

definition multiline_array :: "FormatConfig \<Rightarrow> int \<Rightarrow> py_error + pystr list \<Rightarrow> py_error + pystr" where
  "multiline_array cfg level r =
     (case r of
        Inl e \<Rightarrow> Inl e
      | Inr parts \<Rightarrow>
          Inr ((py ''['') @ [nl] @ join ((py '','') @ [nl]) parts @ [nl] @ spaces (indent cfg * level) @ (py '']'')))"

definition multiline_object :: "FormatConfig \<Rightarrow> int \<Rightarrow> py_error + pystr list \<Rightarrow> py_error + pystr" where
  "multiline_object cfg level r =
     (case r of
        Inl e \<Rightarrow> Inl e
      | Inr lines \<Rightarrow>
          Inr ((py ''{'') @ [nl] @ join ((py '','') @ [nl]) lines @ [nl] @ spaces (indent cfg * level) @ (py ''}'')))"

definition append_part ::
  "FormatConfig \<Rightarrow> int \<Rightarrow> py_error + pystr \<Rightarrow> py_error + pystr list \<Rightarrow> py_error + pystr list" where
  "append_part cfg level r rest =
     (case r of
        Inl e \<Rightarrow> Inl e
      | Inr s \<Rightarrow>
          (case rest of
             Inl e \<Rightarrow> Inl e
           | Inr parts \<Rightarrow> Inr ((spaces (indent cfg * (level + 1)) @ s) # parts)))"

definition append_line ::
  "FormatConfig \<Rightarrow> int \<Rightarrow> pystr \<Rightarrow> py_error + pystr \<Rightarrow> py_error + pystr list \<Rightarrow> py_error + pystr list" where
  "append_line cfg level k r rest =
     (case r of
        Inl e \<Rightarrow> Inl e
      | Inr formatted \<Rightarrow>
          (case rest of
             Inl e \<Rightarrow> Inl e
           | Inr lines \<Rightarrow>
               Inr ((spaces (indent cfg * (level + 1)) @ encode_basestring_ascii k @ (py '': '') @ formatted) # lines)))"

definition append_chunk ::
  "pystr \<Rightarrow> pystr \<Rightarrow> py_error + pystr list option \<Rightarrow> py_error + pystr list option" where
  "append_chunk k s rest =
     (case rest of
        Inl e \<Rightarrow> Inl e
      | Inr None \<Rightarrow> Inr None
      | Inr (Some chunks) \<Rightarrow> Inr (Some ((encode_basestring_ascii k @ (py '': '') @ s) # chunks)))"

definition append_candidate ::
  "pystr \<Rightarrow> py_error + pystr \<Rightarrow> py_error + pystr list option \<Rightarrow> py_error + pystr list option" where
  "append_candidate k r rest =
     (case r of
        Inl e \<Rightarrow> Inl e
      | Inr candidate \<Rightarrow> if nl \<in> set candidate then Inr None else append_chunk k candidate rest)"

definition inline_object ::
  "FormatConfig \<Rightarrow> int \<Rightarrow> py_error + pystr list option \<Rightarrow> py_error + pystr option" where
  "inline_object cfg level r =
     (case r of
        Inl e \<Rightarrow> Inl e
      | Inr None \<Rightarrow> Inr None
      | Inr (Some inner_chunks) \<Rightarrow>
          (let one = (py ''{ '') @ join (py '', '') inner_chunks @ (py '' }'') in
           if fits_width one cfg level \<and> line_count one \<le> long_block_threshold cfg
           then Inr (Some one) else Inr None))"

definition object_or_multiline ::
  "py_error + pystr option \<Rightarrow> py_error + pystr \<Rightarrow> py_error + pystr" where
  "object_or_multiline r multi =
     (case r of
        Inl e \<Rightarrow> Inl e
      | Inr (Some one) \<Rightarrow> Inr one
      | Inr None \<Rightarrow> multi)"

text \<open>
  \<^verbatim>\<open>_format_value\<close>. The three loops that call it again are \<open>format_elems\<close> (the
  default multi-line array), \<open>format_chunks\<close> (the inline attempt of an object, where
  \<open>Inr None\<close> is \<^verbatim>\<open>inner_chunks = None; break\<close>) and \<open>format_lines\<close> (the multi-line
  object).
\<close>

function (sequential) format_value ::
  "('f \<Rightarrow> pystr) \<Rightarrow> 'f json \<Rightarrow> FormatConfig \<Rightarrow> int \<Rightarrow> pystr option \<Rightarrow> py_error + pystr"
and format_elems ::
  "('f \<Rightarrow> pystr) \<Rightarrow> 'f json list \<Rightarrow> FormatConfig \<Rightarrow> int \<Rightarrow> py_error + pystr list"
and format_chunks ::
  "('f \<Rightarrow> pystr) \<Rightarrow> (pystr \<times> 'f json) list \<Rightarrow> FormatConfig \<Rightarrow> int \<Rightarrow> py_error + pystr list option"
and format_lines ::
  "('f \<Rightarrow> pystr) \<Rightarrow> (pystr \<times> 'f json) list \<Rightarrow> FormatConfig \<Rightarrow> int \<Rightarrow> py_error + pystr list" where
  "format_value fr (JList val) cfg level parent_key =
     (case array_compact_forms fr val cfg level parent_key of
        Some r \<Rightarrow> r
      | None \<Rightarrow> multiline_array cfg level (format_elems fr val cfg level))"
| "format_value fr (JDict items) cfg level parent_key =
     object_or_multiline
       (if object_wrap cfg = (py ''collapse'')
           \<and> (list_all (\<lambda>(k, v). is_prim v) items \<or> aggressive_inline cfg) \<and> items \<noteq> []
        then inline_object cfg level (format_chunks fr items cfg level)
        else Inr None)
       (multiline_object cfg level (format_lines fr items cfg level))"
| "format_value fr JNull cfg level parent_key = Inr (dump_oneline fr JNull)"
| "format_value fr (JBool b) cfg level parent_key = Inr (dump_oneline fr (JBool b))"
| "format_value fr (JInt i) cfg level parent_key = Inr (dump_oneline fr (JInt i))"
| "format_value fr (JFloat x) cfg level parent_key = Inr (dump_oneline fr (JFloat x))"
| "format_value fr (JStr s) cfg level parent_key = Inr (dump_oneline fr (JStr s))"
| "format_elems fr [] cfg level = Inr []"
| "format_elems fr (el # rest) cfg level =
     append_part cfg level (format_value fr el cfg (level + 1) None) (format_elems fr rest cfg level)"
| "format_chunks fr [] cfg level = Inr (Some [])"
| "format_chunks fr ((k, v) # rest) cfg level =
     (if is_prim v then append_chunk k (dump_oneline fr v) (format_chunks fr rest cfg level)
      else append_candidate k (format_value fr v cfg level (Some k)) (format_chunks fr rest cfg level))"
| "format_lines fr [] cfg level = Inr []"
| "format_lines fr ((k, v) # rest) cfg level =
     append_line cfg level k (format_value fr v cfg (level + 1) (Some k)) (format_lines fr rest cfg level)"
  by pat_completeness auto

termination
  by (relation "measure (\<lambda>x. case x of
        Inl (Inl (fr, v, cfg, level, pk)) \<Rightarrow> size v
      | Inl (Inr (fr, vs, cfg, level)) \<Rightarrow> size_list size vs
      | Inr (Inl (fr, kvs, cfg, level)) \<Rightarrow> size_list (size_prod (\<lambda>_. 0) size) kvs
      | Inr (Inr (fr, kvs, cfg, level)) \<Rightarrow> size_list (size_prod (\<lambda>_. 0) size) kvs)") auto

definition format_json :: "('f \<Rightarrow> pystr) \<Rightarrow> 'f json \<Rightarrow> FormatConfig \<Rightarrow> py_error + pystr" where
  "format_json fr data cfg =
     (case format_value fr data cfg 0 None of
        Inl e \<Rightarrow> Inl e
      | Inr s \<Rightarrow> Inr (s @ eol cfg))"

subsection \<open>The single-line compact form, as the specification words it\<close>


section \<open>The layout engine under the limits of the interpreter\<close>























section \<open>The lenient reader\<close>

subsection \<open>Comment stripping\<close>

text \<open>
  \<^verbatim>\<open>_STRING_RE\<close>, the pattern \<^verbatim>\<open>"(?:\\.|[^"\\])*"\<close>, tried behind an opening quote: the
  rest of the match and the text after it. The two alternatives of the group start
  with different characters, so at each position at most one of them applies and
  the match, if there is one, is found without backtracking. The dot does not match
  a line feed.
\<close>

fun string_re_tail :: "pystr \<Rightarrow> (pystr \<times> pystr) option" where
  "string_re_tail [] = None"
| "string_re_tail (c # cs) =
     (if c = dq then Some ([dq], cs)
      else if c = bsl then
        (case cs of
           [] \<Rightarrow> None
         | d # ds \<Rightarrow>
             if d = nl then None
             else map_option (\<lambda>(m, r). (bsl # d # m, r)) (string_re_tail ds))
      else map_option (\<lambda>(m, r). (c # m, r)) (string_re_tail cs))"

text \<open>
  \<^verbatim>\<open>_SLASH_SLASH_COMMENT_RE.sub("", gap)\<close>, for the pattern \<^verbatim>\<open>//.*?(?=\n|$)\<close>: from two
  slashes up to, and without, the next line feed or the end of \<open>gap\<close>.
\<close>

function sub_slash_slash :: "pystr \<Rightarrow> pystr" where
  "sub_slash_slash (c # d # cs) =
     (if c = 47 \<and> d = 47 then sub_slash_slash (dropWhile (\<lambda>x. x \<noteq> nl) cs)
      else c # sub_slash_slash (d # cs))"
| "sub_slash_slash [c] = [c]"
| "sub_slash_slash [] = []"
  by pat_completeness auto

termination
  by (relation "measure length") (auto simp: less_Suc_eq_le intro: le_SucI length_dropWhile_le)

text \<open>
  \<^verbatim>\<open>_SLASH_STAR_COMMENT_RE.sub("", gap)\<close>, for the pattern \<^verbatim>\<open>/\*.*?\*/\<close> with \<^verbatim>\<open>re.S\<close>:
  from \<^verbatim>\<open>/*\<close> to the first \<^verbatim>\<open>*/\<close> behind it; without one there is no match.
\<close>

fun find_star_slash :: "pystr \<Rightarrow> pystr option" where
  "find_star_slash (c # d # cs) = (if c = 42 \<and> d = 47 then Some cs else find_star_slash (d # cs))"
| "find_star_slash cs = None"

function sub_slash_star :: "pystr \<Rightarrow> pystr" where
  "sub_slash_star (c # d # cs) =
     (if c = 47 \<and> d = 42 then
        (case find_star_slash cs of
           Some r \<Rightarrow> sub_slash_star r
         | None \<Rightarrow> c # sub_slash_star (d # cs))
      else c # sub_slash_star (d # cs))"
| "sub_slash_star [c] = [c]"
| "sub_slash_star [] = []"
  by pat_completeness auto

termination
proof (relation "measure length")
  fix c d :: nat and cs r :: pystr
  assume "find_star_slash cs = Some r"
  moreover have "find_star_slash xs = Some r \<Longrightarrow> length r \<le> length xs" for xs
    by (induction xs rule: find_star_slash.induct) (auto split: if_splits)
  ultimately show "(r, c # d # cs) \<in> measure length" by fastforce
qed auto

text \<open>
  \<^verbatim>\<open>_strip_comments\<close>. \<open>gap\<close> is \<^verbatim>\<open>jsonc[i:...]\<close>, the text since the last match of
  \<^verbatim>\<open>_STRING_RE\<close>; the second argument is the text still to be searched.
\<close>

function strip_comments_from :: "pystr \<Rightarrow> pystr \<Rightarrow> pystr" where
  "strip_comments_from gap [] = sub_slash_star (sub_slash_slash gap)"
| "strip_comments_from gap (c # cs) =
     (if c = dq then
        (case string_re_tail cs of
           Some (m, r) \<Rightarrow> sub_slash_star (sub_slash_slash gap) @ (dq # m) @ strip_comments_from [] r
         | None \<Rightarrow> strip_comments_from (gap @ [c]) cs)
      else strip_comments_from (gap @ [c]) cs)"
  by pat_completeness auto

termination
proof (relation "measure (\<lambda>(gap, s). length s)")
  fix gap cs m r :: pystr and c :: nat and x :: "pystr \<times> pystr"
  assume "string_re_tail cs = Some x" "(m, r) = x"
  moreover have "string_re_tail xs = Some (m, r) \<Longrightarrow> length r \<le> length xs" for xs m r
    by (induction xs arbitrary: m r rule: string_re_tail.induct)
       (fastforce split: if_splits list.splits)+
  ultimately show "(([], r), gap, c # cs) \<in> measure (\<lambda>(gap, s). length s)" by fastforce
qed auto

definition strip_comments :: "pystr \<Rightarrow> pystr" where
  "strip_comments jsonc = strip_comments_from [] jsonc"

subsection \<open>Trailing commas\<close>

text \<open>\<^verbatim>\<open>str.isspace\<close> for one character.\<close>

definition py_isspace :: "nat \<Rightarrow> bool" where
  "py_isspace c \<longleftrightarrow>
     (9 \<le> c \<and> c \<le> 13) \<or> (28 \<le> c \<and> c \<le> 32) \<or> c = 133 \<or> c = 160 \<or> c = 5760
     \<or> (8192 \<le> c \<and> c \<le> 8202) \<or> c = 8232 \<or> c = 8233 \<or> c = 8239 \<or> c = 8287 \<or> c = 12288"

text \<open>
  The inner loop at a closing bracket: \<open>j\<close> runs back over the white space at the end
  of \<open>out\<close>, and a comma at \<open>j\<close> is popped.
\<close>

definition pop_trailing_comma :: "pystr \<Rightarrow> pystr" where
  "pop_trailing_comma out =
     (case dropWhile py_isspace (rev out) of
        [] \<Rightarrow> out
      | c # front \<Rightarrow>
          if c = 44 then rev front @ rev (takeWhile py_isspace (rev out)) else out)"

fun strip_trailing_commas_loop :: "pystr \<Rightarrow> bool \<Rightarrow> bool \<Rightarrow> pystr \<Rightarrow> pystr" where
  "strip_trailing_commas_loop out in_string escape [] = out"
| "strip_trailing_commas_loop out in_string escape (ch # s) =
     (if in_string then
        (if escape then strip_trailing_commas_loop (out @ [ch]) True False s
         else if ch = bsl then strip_trailing_commas_loop (out @ [ch]) True True s
         else if ch = dq then strip_trailing_commas_loop (out @ [ch]) False escape s
         else strip_trailing_commas_loop (out @ [ch]) True escape s)
      else if ch = dq then strip_trailing_commas_loop (out @ [ch]) True False s
      else if ch = 125 \<or> ch = 93 then strip_trailing_commas_loop (pop_trailing_comma out @ [ch]) in_string escape s
      else strip_trailing_commas_loop (out @ [ch]) in_string escape s)"

definition strip_trailing_commas :: "pystr \<Rightarrow> pystr" where
  "strip_trailing_commas s = strip_trailing_commas_loop [] False False s"

subsection \<open>The strict decoder\<close>

text \<open>
  \<^verbatim>\<open>json.loads\<close> of the Python standard library, after \<^verbatim>\<open>json/decoder.py\<close> and
  \<^verbatim>\<open>json/scanner.py\<close>. A position \<^verbatim>\<open>idx\<close> in the document is represented by the text from
  \<^verbatim>\<open>idx\<close> on, and the message of a \<^verbatim>\<open>JSONDecodeError\<close> by its kind.
\<close>

datatype decode_msg =
    Expecting_value
  | Expecting_comma_delimiter
  | Expecting_property_name
  | Expecting_colon_delimiter
  | Extra_data
  | Unterminated_string
  | Invalid_control_character
  | Invalid_escape
  | Invalid_uXXXX_escape
  | Unexpected_BOM

datatype scan_error =
    StopIteration pystr
  | DecodeError decode_msg pystr
  | NoProgress

datatype json_error = JSONDecodeError (msg: decode_msg) (doc: pystr) (pos: nat)

text \<open>\<^verbatim>\<open>lineno\<close> and \<^verbatim>\<open>colno\<close> as \<^verbatim>\<open>JSONDecodeError.__init__\<close> computes them.\<close>

definition lineno :: "json_error \<Rightarrow> nat" where
  "lineno e = count_list (take (pos e) (doc e)) nl + 1"

definition colno :: "json_error \<Rightarrow> nat" where
  "colno e = length (takeWhile (\<lambda>c. c \<noteq> nl) (rev (take (pos e) (doc e)))) + 1"

text \<open>\<^verbatim>\<open>WHITESPACE.match(s, end).end()\<close>, for the pattern \<^verbatim>\<open>[ \t\n\r]*\<close>.\<close>

definition is_ws :: "nat \<Rightarrow> bool" where
  "is_ws c \<longleftrightarrow> c = 32 \<or> c = 9 \<or> c = 10 \<or> c = 13"

definition skip_ws :: "pystr \<Rightarrow> pystr" where
  "skip_ws s = dropWhile is_ws s"

definition is_digit :: "nat \<Rightarrow> bool" where
  "is_digit c \<longleftrightarrow> 48 \<le> c \<and> c \<le> 57"

text \<open>
  \<^verbatim>\<open>NUMBER_RE\<close>, the pattern \<^verbatim>\<open>(-?(?:0|[1-9]\d*))(\.\d+)?([eE][-+]?\d+)?\<close>: the three
  groups and the text after the match.
\<close>

definition match_integer :: "pystr \<Rightarrow> (pystr \<times> pystr) option" where
  "match_integer s =
     (let (sign, r) = (case s of c # cs \<Rightarrow> if c = 45 then ([c], cs) else ([], s) | [] \<Rightarrow> ([], s)) in
      case r of
        [] \<Rightarrow> None
      | c # cs \<Rightarrow>
          if c = 48 then Some (sign @ [c], cs)
          else if 49 \<le> c \<and> c \<le> 57 then Some (sign @ c # takeWhile is_digit cs, dropWhile is_digit cs)
          else None)"

definition match_frac :: "pystr \<Rightarrow> pystr \<times> pystr" where
  "match_frac s =
     (case s of
        c # d # cs \<Rightarrow>
          if c = 46 \<and> is_digit d then (c # d # takeWhile is_digit cs, dropWhile is_digit cs) else ([], s)
      | _ \<Rightarrow> ([], s))"

definition match_exp :: "pystr \<Rightarrow> pystr \<times> pystr" where
  "match_exp s =
     (case s of
        c # cs \<Rightarrow>
          if c = 101 \<or> c = 69 then
            (let (sign, r) = (case cs of d # ds \<Rightarrow> if d = 45 \<or> d = 43 then ([d], ds) else ([], cs) | [] \<Rightarrow> ([], cs)) in
             if takeWhile is_digit r = [] then ([], s)
             else (c # sign @ takeWhile is_digit r, dropWhile is_digit r))
          else ([], s)
      | [] \<Rightarrow> ([], s))"

definition match_number :: "pystr \<Rightarrow> (pystr \<times> pystr \<times> pystr \<times> pystr) option" where
  "match_number s =
     (case match_integer s of
        None \<Rightarrow> None
      | Some (integer, r1) \<Rightarrow>
          (let (frac, r2) = match_frac r1; (exp, r3) = match_exp r2 in Some (integer, frac, exp, r3)))"

text \<open>\<^verbatim>\<open>int(integer)\<close> for a match of the first group.\<close>

definition nat_of_digits :: "pystr \<Rightarrow> nat" where
  "nat_of_digits ds = foldl (\<lambda>a d. 10 * a + (d - 48)) 0 ds"

definition int_of_text :: "pystr \<Rightarrow> int" where
  "int_of_text s = (case s of c # cs \<Rightarrow> if c = 45 then - int (nat_of_digits cs) else int (nat_of_digits s) | [] \<Rightarrow> 0)"

text \<open>The table \<^verbatim>\<open>BACKSLASH\<close> of the decoder.\<close>

definition backslash :: "nat \<Rightarrow> nat option" where
  "backslash e =
     (if e = dq then Some dq
      else if e = bsl then Some bsl
      else if e = 47 then Some 47
      else if e = 98 then Some 8
      else if e = 102 then Some 12
      else if e = 110 then Some 10
      else if e = 114 then Some 13
      else if e = 116 then Some 9
      else None)"

definition hex_val :: "nat \<Rightarrow> nat option" where
  "hex_val c =
     (if 48 \<le> c \<and> c \<le> 57 then Some (c - 48)
      else if 97 \<le> c \<and> c \<le> 102 then Some (c - 87)
      else if 65 \<le> c \<and> c \<le> 70 then Some (c - 55)
      else None)"

text \<open>Four hexadecimal digits at the head of the text.\<close>

definition decode_hex4 :: "pystr \<Rightarrow> nat option" where
  "decode_hex4 s =
     (case s of
        a # b # c # d # _ \<Rightarrow>
          (case (hex_val a, hex_val b, hex_val c, hex_val d) of
             (Some x, Some y, Some z, Some w) \<Rightarrow> Some (((x * 16 + y) * 16 + z) * 16 + w)
           | _ \<Rightarrow> None)
      | _ \<Rightarrow> None)"

text \<open>
  A \<^verbatim>\<open>\uXXXX\<close> escape, from behind the \<^verbatim>\<open>u\<close>: the character and the text after the
  escape. An escaped high surrogate directly followed by an escaped low surrogate is
  one character.
\<close>

definition scan_uXXXX :: "pystr \<Rightarrow> scan_error + (nat \<times> pystr)" where
  "scan_uXXXX es =
     (if length es < 5 then Inl (DecodeError Invalid_uXXXX_escape (117 # es))
      else
        (case decode_hex4 es of
           None \<Rightarrow> Inl (DecodeError Invalid_uXXXX_escape (117 # es))
         | Some uni \<Rightarrow>
             (let r = drop 4 es in
              if 55296 \<le> uni \<and> uni \<le> 56319 \<and> 6 < length r \<and> take 2 r = [bsl, 117] then
                (case decode_hex4 (drop 2 r) of
                   None \<Rightarrow> Inl (DecodeError Invalid_uXXXX_escape (tl r))
                 | Some uni2 \<Rightarrow>
                     if 56320 \<le> uni2 \<and> uni2 \<le> 57343
                     then Inr (65536 + (uni - 55296) * 1024 + (uni2 - 56320), drop 6 r)
                     else Inr (uni, r))
              else Inr (uni, r))))"

text \<open>
  \<^verbatim>\<open>scanstring\<close> in strict mode, from behind the opening quote. \<open>start\<close> is the text from
  the opening quote on and \<open>acc\<close> the characters decoded so far.
\<close>

function scanstring_loop :: "pystr \<Rightarrow> pystr \<Rightarrow> pystr \<Rightarrow> scan_error + (pystr \<times> pystr)" where
  "scanstring_loop start acc [] = Inl (DecodeError Unterminated_string start)"
| "scanstring_loop start acc (c # cs) =
     (if c = dq then Inr (acc, cs)
      else if c = bsl then
        (case cs of
           [] \<Rightarrow> Inl (DecodeError Unterminated_string start)
         | e # es \<Rightarrow>
             if e \<noteq> 117 then
               (case backslash e of
                  None \<Rightarrow> Inl (DecodeError Invalid_escape (c # cs))
                | Some ch \<Rightarrow> scanstring_loop start (acc @ [ch]) es)
             else
               (case scan_uXXXX es of
                  Inl err \<Rightarrow> Inl err
                | Inr (ch, r) \<Rightarrow> scanstring_loop start (acc @ [ch]) r))
      else if c \<le> 31 then Inl (DecodeError Invalid_control_character (c # cs))
      else scanstring_loop start (acc @ [c]) cs)"
  by pat_completeness auto

termination
proof (relation "measure (\<lambda>(start, acc, s). length s)", goal_cases)
  case (3 start acc c cs e es x ch r)
  then have "length r \<le> length es"
    by (auto simp: scan_uXXXX_def Let_def split: if_splits option.splits)
  with 3 show ?case by simp
qed auto

text \<open>\<^verbatim>\<open>dict(pairs)\<close>: a later pair with the same key replaces the value.\<close>

definition py_dict :: "(pystr \<times> 'v) list \<Rightarrow> (pystr \<times> 'v) list" where
  "py_dict pairs = foldl (\<lambda>d (k, v). dict_set d k v) [] pairs"

text \<open>
  \<^verbatim>\<open>scan_once\<close>, \<^verbatim>\<open>JSONObject\<close> and \<^verbatim>\<open>JSONArray\<close> with their \<^verbatim>\<open>while True\<close> loops.
  \<open>float_of\<close> is \<^verbatim>\<open>float(str)\<close>. A loop goes on behind the value that \<^verbatim>\<open>scan_once\<close>
  returned; the test that this value took at least one character is what makes the
  recursion well-founded, and its other branch, \<open>NoProgress\<close>, is never taken.
\<close>

function scan_once :: "(pystr \<Rightarrow> 'f pyfloat) \<Rightarrow> pystr \<Rightarrow> scan_error + ('f json \<times> pystr)"
and JSONObject :: "(pystr \<Rightarrow> 'f pyfloat) \<Rightarrow> pystr \<Rightarrow> scan_error + ('f json \<times> pystr)"
and object_loop :: "(pystr \<Rightarrow> 'f pyfloat) \<Rightarrow> pystr \<Rightarrow> (pystr \<times> 'f json) list \<Rightarrow> scan_error + ('f json \<times> pystr)"
and JSONArray :: "(pystr \<Rightarrow> 'f pyfloat) \<Rightarrow> pystr \<Rightarrow> scan_error + ('f json \<times> pystr)"
and array_loop :: "(pystr \<Rightarrow> 'f pyfloat) \<Rightarrow> pystr \<Rightarrow> 'f json list \<Rightarrow> scan_error + ('f json \<times> pystr)" where
  "scan_once float_of [] = Inl (StopIteration [])"
| "scan_once float_of (nextchar # s) =
     (if nextchar = dq then
        (case scanstring_loop (nextchar # s) [] s of
           Inl e \<Rightarrow> Inl e
         | Inr (str, r) \<Rightarrow> Inr (JStr str, r))
      else if nextchar = 123 then JSONObject float_of s
      else if nextchar = 91 then JSONArray float_of s
      else if nextchar = 110 \<and> take 4 (nextchar # s) = py ''null'' then Inr (JNull, drop 3 s)
      else if nextchar = 116 \<and> take 4 (nextchar # s) = py ''true'' then Inr (JBool True, drop 3 s)
      else if nextchar = 102 \<and> take 5 (nextchar # s) = py ''false'' then Inr (JBool False, drop 4 s)
      else
        (case match_number (nextchar # s) of
           Some (integer, frac, exp, r) \<Rightarrow>
             if frac \<noteq> [] \<or> exp \<noteq> [] then Inr (JFloat (float_of (integer @ frac @ exp)), r)
             else Inr (JInt (int_of_text integer), r)
         | None \<Rightarrow>
             if nextchar = 78 \<and> take 3 (nextchar # s) = py ''NaN'' then Inr (JFloat NaN, drop 2 s)
             else if nextchar = 73 \<and> take 8 (nextchar # s) = py ''Infinity'' then Inr (JFloat PosInf, drop 7 s)
             else if nextchar = 45 \<and> take 9 (nextchar # s) = py ''-Infinity'' then Inr (JFloat NegInf, drop 8 s)
             else Inl (StopIteration (nextchar # s))))"
| "JSONObject float_of s =
     (case skip_ws s of
        [] \<Rightarrow> Inl (DecodeError Expecting_property_name [])
      | nextchar # r \<Rightarrow>
          if nextchar = 125 then Inr (JDict [], r)
          else if nextchar = dq then object_loop float_of r []
          else Inl (DecodeError Expecting_property_name (nextchar # r)))"
| "object_loop float_of s pairs =
     (case scanstring_loop (dq # s) [] s of
        Inl e \<Rightarrow> Inl e
      | Inr (key, s2) \<Rightarrow>
          (case skip_ws s2 of
             [] \<Rightarrow> Inl (DecodeError Expecting_colon_delimiter [])
           | c # s3 \<Rightarrow>
               if c \<noteq> 58 then Inl (DecodeError Expecting_colon_delimiter (c # s3))
               else
                 (case scan_once float_of (skip_ws s3) of
                    Inl (StopIteration r) \<Rightarrow> Inl (DecodeError Expecting_value r)
                  | Inl e \<Rightarrow> Inl e
                  | Inr (v, s5) \<Rightarrow>
                      if \<not> length s5 < length (skip_ws s3) then Inl NoProgress
                      else
                        (case skip_ws s5 of
                           [] \<Rightarrow> Inl (DecodeError Expecting_comma_delimiter [])
                         | nextchar # s6 \<Rightarrow>
                             if nextchar = 125 then Inr (JDict (py_dict (pairs @ [(key, v)])), s6)
                             else if nextchar \<noteq> 44 then Inl (DecodeError Expecting_comma_delimiter (nextchar # s6))
                             else
                               (case skip_ws s6 of
                                  [] \<Rightarrow> Inl (DecodeError Expecting_property_name [])
                                | q # s7 \<Rightarrow>
                                    if q \<noteq> dq then Inl (DecodeError Expecting_property_name (q # s7))
                                    else object_loop float_of s7 (pairs @ [(key, v)]))))))"
| "JSONArray float_of s =
     (case skip_ws s of
        [] \<Rightarrow> array_loop float_of [] []
      | nextchar # r \<Rightarrow>
          if nextchar = 93 then Inr (JList [], r)
          else array_loop float_of (nextchar # r) [])"
| "array_loop float_of s values =
     (case scan_once float_of s of
        Inl (StopIteration r) \<Rightarrow> Inl (DecodeError Expecting_value r)
      | Inl e \<Rightarrow> Inl e
      | Inr (v, s2) \<Rightarrow>
          if \<not> length s2 < length s then Inl NoProgress
          else
            (case skip_ws s2 of
               [] \<Rightarrow> Inl (DecodeError Expecting_comma_delimiter [])
             | nextchar # s3 \<Rightarrow>
                 if nextchar = 93 then Inr (JList (values @ [v]), s3)
                 else if nextchar \<noteq> 44 then Inl (DecodeError Expecting_comma_delimiter (nextchar # s3))
                 else array_loop float_of (skip_ws s3) (values @ [v])))"
  by pat_completeness auto

termination
proof -
  have skip_le: "length (skip_ws s) \<le> length s" for s
    by (simp add: skip_ws_def length_dropWhile_le)
  have skip_cons: "length r < length s" if "skip_ws s = c # r" for s r :: pystr and c
    using skip_le [of s] that by simp
  have scan_len: "length r \<le> length s" if "scanstring_loop b acc s = Inr (k, r)" for b acc s k r
    using that
  proof (induction b acc s rule: scanstring_loop.induct)
    case (2 start acc c cs)
    show ?case
    proof (cases "c = dq")
      case True
      with 2 show ?thesis by simp
    next
      case False
      note ndq = this
      show ?thesis
      proof (cases "c = bsl")
        case False
        with 2 ndq show ?thesis by (auto split: if_splits)
      next
        case True
        with "2.prems" obtain e es where cs: "cs = e # es" by (cases cs) auto
        show ?thesis
        proof (cases "e = 117")
          case False
          with "2.prems" True cs obtain ch where b: "backslash e = Some ch"
            and l: "scanstring_loop start (acc @ [ch]) es = Inr (k, r)"
            by (auto split: option.splits)
          from "2.IH"(1) [OF ndq True cs False b l] cs show ?thesis by simp
        next
          case e: True
          from "2.prems" True cs e obtain ch r' where u: "scan_uXXXX es = Inr (ch, r')"
            by (auto split: sum.splits)
          then have "length r' \<le> length es"
            by (auto simp: scan_uXXXX_def Let_def split: if_splits option.splits)
          moreover have "length r \<le> length r'"
            using "2.IH"(2) [OF ndq True cs _ u refl] "2.prems" True cs e u by simp
          ultimately show ?thesis using cs by simp
        qed
      qed
    qed
  qed simp
  show ?thesis
  proof (relation "measure (\<lambda>x. case x of
            Inl (Inl (fp, s)) \<Rightarrow> 3 * length s
          | Inl (Inr (fp, s)) \<Rightarrow> 3 * length s + 2
          | Inr (Inl (fp, s, pairs)) \<Rightarrow> 3 * length s + 1
          | Inr (Inr (Inl (fp, s))) \<Rightarrow> 3 * length s + 2
          | Inr (Inr (Inr (fp, s, vs))) \<Rightarrow> 3 * length s + 1)", goal_cases)
    case 1
    show ?case by simp
  next
    case (2 float_of nextchar s)
    show ?case by simp
  next
    case (3 float_of nextchar s)
    show ?case by simp
  next
    case (4 float_of s x21 x22)
    then have "skip_ws s = x21 # x22" by simp
    from skip_cons [OF this] show ?case by simp
  next
    case (5 float_of s pairs b x y x21 x22)
    from 5 have a: "scanstring_loop (dq # s) [] s = Inr (x, y)" by simp
    from 5 have b: "skip_ws y = x21 # x22" by simp
    from scan_len [OF a] skip_cons [OF b] skip_le [of x22]
    show ?case by simp
  next
    case (6 float_of s pairs b x y x21 x22 ba xa ya x21a x22a x21b x22b)
    from 6 have a: "scanstring_loop (dq # s) [] s = Inr (x, y)" by simp
    from 6 have b: "skip_ws y = x21 # x22" by simp
    from 6 have c: "length ya < length (skip_ws x22)" by simp
    from 6 have d: "skip_ws ya = x21a # x22a" by simp
    from 6 have e: "skip_ws x22a = x21b # x22b" by simp
    from scan_len [OF a] skip_cons [OF b] skip_le [of x22] c skip_cons [OF d] skip_cons [OF e]
    show ?case by simp
  next
    case (7 float_of s)
    then show ?case by simp
  next
    case (8 float_of s x21 x22)
    from skip_le [of s] 8 show ?case by simp
  next
    case (9 float_of s vs)
    show ?case by simp
  next
    case (10 float_of s vs b x y x21 x22)
    from 10 have c: "length y < length s" by simp
    from 10 have d: "skip_ws y = x21 # x22" by simp
    from skip_cons [OF d] skip_le [of x22] c
    show ?case by simp
  qed
qed

text \<open>
  \<^verbatim>\<open>json.loads\<close>: white space, one value, white space and the end of the document.
\<close>

definition json_loads :: "(pystr \<Rightarrow> 'f pyfloat) \<Rightarrow> pystr \<Rightarrow> json_error + 'f json" where
  "json_loads float_of s =
     (if take 1 s = [65279] then Inl (JSONDecodeError Unexpected_BOM s 0)
      else case scan_once float_of (skip_ws s) of
        Inl (StopIteration r) \<Rightarrow> Inl (JSONDecodeError Expecting_value s (length s - length r))
      | Inl (DecodeError m r) \<Rightarrow> Inl (JSONDecodeError m s (length s - length r))
      | Inl NoProgress \<Rightarrow> Inl (JSONDecodeError Expecting_value s 0)
      | Inr (obj, r) \<Rightarrow>
          (let rest = skip_ws r in
           if rest \<noteq> [] then Inl (JSONDecodeError Extra_data s (length s - length rest))
           else Inr obj))"

definition parse_json_lenient :: "(pystr \<Rightarrow> 'f pyfloat) \<Rightarrow> pystr \<Rightarrow> json_error + 'f json" where
  "parse_json_lenient float_of text =
     (let no_comments = strip_comments text;
          no_trailing = strip_trailing_commas no_comments
      in json_loads float_of no_trailing)"

text \<open>
  A floating point type with a single number, \<^verbatim>\<open>0.0\<close>, for the closed examples below.
\<close>

definition unit_float :: "pystr \<Rightarrow> unit pyfloat" where
  "unit_float s = Finite ()"

definition unit_repr :: "unit \<Rightarrow> pystr" where
  "unit_repr x = (py ''0.0'')"

section \<open>Properties of the layout engine\<close>

subsection \<open>The layout rules do not raise of themselves\<close>


lemma those_as_dict_map [simp]: "those (map as_dict (map JDict ds)) = Some ds"
  by (induction ds) auto








subsection \<open>The limits of the interpreter\<close>


























subsection \<open>Empty containers\<close>

text \<open>
  Claim C10, as stated, fails: under a collapse key the empty array is rendered inline,
  with two spaces between the brackets; and an empty object or array that is an element
  of an array compacted under a collapse key is rendered inline too, by
  \<^verbatim>\<open>_compact_object\<close> and \<^verbatim>\<open>_compact_list\<close>.
\<close>

theorem empty_array_inline_counterexample:
  "format_json unit_repr (JDict [(py ''drops'', JList [])]) DEFAULT_CFG = Inr (py ''{ \"drops\": [  ] }\<newline>'')
   \<and> format_json unit_repr (JDict [(py ''drops'', JList [JDict []])]) DEFAULT_CFG = Inr (py ''{ \"drops\": [ {  } ] }\<newline>'')
   \<and> format_json unit_repr (JDict [(py ''drops'', JList [JList []])]) DEFAULT_CFG = Inr (py ''{ \"drops\": [ [  ] ] }\<newline>'')"
  by code_simp

text \<open>
  Claim C10, amended. A call of \<^verbatim>\<open>_format_value\<close> on the empty object returns an
  opening brace, an empty line and the closing brace at the current indent, under every
  configuration and parent key. A call of \<^verbatim>\<open>_format_value\<close> on the empty array returns
  the same with brackets, except under a parent key of \<^verbatim>\<open>array_collapse_keys\<close> when
  \<^verbatim>\<open>[  ]\<close> fits the width or \<^verbatim>\<open>allow_overflow_inline_arrays\<close> is set: there it returns
  \<^verbatim>\<open>[  ]\<close>. An empty container that is an element of an array compacted under a
  collapse key is not rendered by \<^verbatim>\<open>_format_value\<close> but by the two compact helpers:
  \<^verbatim>\<open>_compact_object\<close> gives \<^verbatim>\<open>{  }\<close> for the empty object, and \<^verbatim>\<open>_compact_list\<close> gives
  \<^verbatim>\<open>[  ]\<close> for the empty array when that fits the width or overflow is allowed, and
  no form otherwise.
\<close>

theorem empty_containers:
  "format_value fr (JDict []) cfg level pk = Inr (py ''{'' @ [nl] @ [nl] @ spaces (indent cfg * level) @ py ''}'')
   \<and> format_value fr (JList []) cfg level pk =
       Inr (if (\<exists>k. pk = Some k \<and> k \<in> set (array_collapse_keys cfg))
               \<and> (fits_width (py ''[  ]'') cfg level \<or> allow_overflow_inline_arrays cfg)
            then py ''[  ]''
            else py ''['' @ [nl] @ [nl] @ spaces (indent cfg * level) @ py '']'')
   \<and> compact_object fr [] cfg = Some (py ''{  }'')
   \<and> compact_list fr [] cfg level =
       (if fits_width (py ''[  ]'') cfg level \<or> allow_overflow_inline_arrays cfg then Some (py ''[  ]'') else None)"
  by (auto simp: object_or_multiline_def multiline_object_def compact_object_def
      array_compact_forms_def collapse_key_forms_def compact_list.simps homogeneous_form_def
      array_is_homog_small_objs_def primitive_collapse_def multiline_array_def split: option.splits)

theorem empty_containers_witness:
  "format_value unit_repr (JDict []) DEFAULT_CFG 1 None = Inr (py ''{\<newline>\<newline>  }'')
   \<and> format_value unit_repr (JDict []) DEFAULT_CFG 1 (Some (py ''drops'')) = Inr (py ''{\<newline>\<newline>  }'')
   \<and> format_value unit_repr (JList []) DEFAULT_CFG 1 None = Inr (py ''[\<newline>\<newline>  ]'')
   \<and> format_value unit_repr (JList []) DEFAULT_CFG 1 (Some (py ''drops'')) = Inr (py ''[  ]'')
   \<and> compact_object unit_repr [] DEFAULT_CFG = Some (py ''{  }'')
   \<and> compact_list unit_repr [] DEFAULT_CFG 1 = Some (py ''[  ]'')"
proof -
  have sp: "spaces (indent DEFAULT_CFG) = py ''  ''"
    by code_simp
  have ck: "py ''drops'' \<in> set (array_collapse_keys DEFAULT_CFG)" "allow_overflow_inline_arrays DEFAULT_CFG"
    by (simp_all add: DEFAULT_CFG_def)
  show ?thesis
    using empty_containers [of unit_repr DEFAULT_CFG 1 None]
      empty_containers [of unit_repr DEFAULT_CFG 1 "Some (py ''drops'')"] ck
    by (simp del: format_value.simps add: sp)
qed

subsection \<open>Arrays of primitives that fit the width\<close>

lemma set_join: "set (join sep xs) \<subseteq> set sep \<union> \<Union> (set ` set xs)"
  by (induction sep xs rule: join.induct) auto

lemma digit_char_not_nl: "digit_char d \<noteq> nl"
  by (simp add: digit_char_def)

lemma nl_str_nat: "nl \<notin> set (str_nat n)"
proof (induction n rule: str_nat.induct)
  case (1 n)
  show ?case
  proof (cases "n < 10")
    case True
    then show ?thesis by (subst str_nat.simps) (simp add: digit_char_not_nl [symmetric])
  next
    case False
    with 1 show ?thesis
      by (subst str_nat.simps) (simp add: digit_char_not_nl [symmetric])
  qed
qed

lemma nl_str_int: "nl \<notin> set (str_int i)"
  by (simp add: str_int_def nl_str_nat)

lemma hex_char_not_nl: "hex_char d \<noteq> nl"
  by (simp add: hex_char_def)

lemma nl_u_escape: "nl \<notin> set (u_escape n)"
  by (simp add: u_escape_def hex_char_not_nl [symmetric])

lemma nl_escape_dct: "nl \<notin> set (escape_dct c)"
  by (simp add: escape_dct_def nl_u_escape)


lemma nl_encode_basestring: "nl \<notin> set (encode_basestring s)"
  by (auto simp: encode_basestring_def nl_escape_dct)


lemma nl_floatstr: "\<forall>x. nl \<notin> set (fr x) \<Longrightarrow> nl \<notin> set (floatstr fr y)"
  by (cases y) auto

lemma nl_dump_prim: "\<forall>x. nl \<notin> set (fr x) \<Longrightarrow> is_prim v \<Longrightarrow> nl \<notin> set (dump_oneline fr v)"
  by (cases v) (auto simp: nl_str_int nl_encode_basestring nl_floatstr)

lemma nl_join:
  "nl \<notin> set sep \<Longrightarrow> \<forall>x \<in> set xs. nl \<notin> set x \<Longrightarrow> nl \<notin> set (join sep xs)"
  using set_join [of sep xs] by auto

lemma compact_parts_prims:
  "list_all is_prim val \<Longrightarrow> compact_parts fr val cfg level = Some (map (dump_oneline fr) val)"
  by (induction val) auto

lemma those_as_dict_prim: "is_prim v \<Longrightarrow> those (as_dict v # ds) = None"
  by (cases v) auto

lemma homogeneous_form_prims:
  "val \<noteq> [] \<Longrightarrow> list_all is_prim val \<Longrightarrow> homogeneous_form fr val cfg level = None"
  by (cases val) (auto simp: homogeneous_form_def array_is_homog_small_objs_def those_as_dict_prim
      simp del: those.simps)

lemma line_count_one: "nl \<notin> set s \<Longrightarrow> line_count s = 1"
  by (simp add: line_count_def)


text \<open>
  Claim C7, as stated, fails for the empty array: all of its elements are primitives and
  its single-line rendering \<^verbatim>\<open>[]\<close> fits, yet it is rendered on three lines.
\<close>

theorem width_fit_empty_counterexample:
  "list_all is_prim ([] :: unit json list)
   \<and> fits_width ((py ''['') @ join (py '', '') (map (dump_oneline unit_repr) []) @ (py '']'')) DEFAULT_CFG 0
   \<and> format_value unit_repr (JList []) DEFAULT_CFG 0 None = Inr (py ''[\<newline>\<newline>]'')
   \<and> line_count (py ''[\<newline>\<newline>]'') = 3"
  by code_simp

text \<open>
  Claim C7, amended to non-empty arrays. Under the default configuration, a non-empty
  array whose elements are all primitives and whose single-line rendering \<^verbatim>\<open>[a, b, ...]\<close>
  of length \<open>L\<close> has \<open>L + level * indent \<le> print_width\<close> is rendered on exactly one line,
  whatever the parent key. The representation of a float contains no line feed.
\<close>

theorem width_fit_nonempty:
  assumes fr: "\<forall>x. nl \<notin> set (fr x)"
    and ne: "val \<noteq> []"
    and prims: "list_all is_prim val"
    and fits: "fits_width ((py ''['') @ join (py '', '') (map (dump_oneline fr) val) @ (py '']'')) DEFAULT_CFG level"
  shows "\<exists>s. format_value fr (JList val) DEFAULT_CFG level pk = Inr s \<and> line_count s = 1"
proof -
  let ?parts = "map (dump_oneline fr) val"
  let ?one = "(py ''['') @ join (py '', '') ?parts @ (py '']'')"
  have parts: "\<forall>x \<in> set ?parts. nl \<notin> set x"
    using fr prims by (auto simp: list_all_iff nl_dump_prim)
  have j: "nl \<notin> set (join (py '', '') ?parts)"
    by (rule nl_join [OF _ parts]) simp
  then have one: "nl \<notin> set ?one" by simp
  have lc: "line_count ?one = 1" by (rule line_count_one [OF one])
  show ?thesis
  proof (cases "collapse_key_forms fr val DEFAULT_CFG level pk")
    case None
    have "primitive_collapse fr val DEFAULT_CFG level = Some ?one"
      using ne prims fits lc by (simp add: primitive_collapse_def Let_def) (simp add: DEFAULT_CFG_def)
    with None show ?thesis
      using lc by (simp add: array_compact_forms_def homogeneous_form_prims [OF ne prims])
  next
    case (Some s)
    then have s: "s = (py ''[ '') @ join (py '', '') ?parts @ (py '' ]'')"
      by (auto simp: collapse_key_forms_def compact_list.simps compact_parts_prims [OF prims] Let_def
          DEFAULT_CFG_def split: option.splits if_splits)
    have "nl \<notin> set s" unfolding s using j by simp
    with Some show ?thesis
      by (simp add: array_compact_forms_def line_count_one)
  qed
qed


theorem width_fit_nonempty_witness:
  "\<exists>s. format_value unit_repr (JList [JInt 12, JStr (py ''a''), JNull]) DEFAULT_CFG 3 None = Inr s \<and> line_count s = 1"
proof -
  have h1: "\<forall>x. nl \<notin> set (unit_repr x)" by (simp add: unit_repr_def)
  have h2: "[JInt 12, JStr (py ''a''), JNull] \<noteq> ([] :: unit json list)" by simp
  have h3: "list_all is_prim [JInt 12, JStr (py ''a''), JNull :: unit json]" by simp
  have h4: "fits_width ((py ''['') @ join (py '', '') (map (dump_oneline unit_repr) [JInt 12, JStr (py ''a''), JNull]) @ (py '']''))
              DEFAULT_CFG 3"
    by code_simp
  show ?thesis by (rule width_fit_nonempty [OF h1 h2 h3 h4])
qed

subsection \<open>Arrays of homogeneous small objects\<close>






lemma those_as_dict_comp [simp]: "those (map (as_dict \<circ> JDict) ds) = Some ds"
  by (induction ds) auto








lemma elem_strings_those:
  "elem_strings fr val cfg level = those (map (\<lambda>el. elem_compact fr el cfg level) val)"
  by (induction val) (auto split: option.splits)









subsection \<open>The second attempt under a collapse key\<close>







section \<open>Properties of the lenient reader\<close>

lemmas reader_eval =
  strip_comments_def strip_trailing_commas_def pop_trailing_comma_def py_isspace_def
  parse_json_lenient_def json_loads_def skip_ws_def is_ws_def is_digit_def
  match_number_def match_integer_def match_frac_def match_exp_def
  nat_of_digits_def int_of_text_def backslash_def hex_val_def decode_hex4_def scan_uXXXX_def
  py_dict_def lineno_def colno_def Let_def

subsection \<open>Comments that contain a quote\<close>

text \<open>
  Claim C3 does not hold of \<^verbatim>\<open>_strip_comments\<close>. The function looks for string literals
  first, in the whole text, and removes comments only from the gaps between them; so a
  quote inside a comment starts a string literal. Of the line comment
  \<^verbatim>\<open>// say "hi" there\<close> only \<^verbatim>\<open>// say \<close> is removed, the rest reaches the strict decoder,
  which rejects the document. A block comment with a quoted word in it is left in
  place, and one with \<^verbatim>\<open>//\<close> in it loses its end to the pass for line comments, which
  runs first.
\<close>

theorem strip_comments_quote_in_comment:
  "strip_comments (py ''[1] // say \"hi\" there\<newline>'') = py ''[1] \"hi\" there\<newline>''
   \<and> parse_json_lenient unit_float (py ''[1] // say \"hi\" there\<newline>'')
       = Inl (JSONDecodeError Extra_data (py ''[1] \"hi\" there\<newline>'') 4)
   \<and> strip_comments (py ''[1] /* \"a\" */'') = py ''[1] /* \"a\" */''
   \<and> strip_comments (py ''[1] /* see http://x */'') = py ''[1] /* see http:''"
  by (simp add: reader_eval)

end
